theory Spec2Isabelle
  imports
    Complex_Main
    "HOL-Library.Char_ord"
    "HOL-Library.List_Lexorder"
    "HOL-Library.Product_Lexorder"
    "HOL-Library.Sublist"
    "HOL-Library.Multiset"
begin

section \<open>The COVID-19 dashboard pipeline (CovidDashboard.py)\<close>

text \<open>
  The program is a linear pipeline over pandas data frames: load, clean, derive two
  rates per row, group by (Country/Region, WHO Region), and on every change of the two
  controls filter the grouped table and rebuild six plotly figures.

  A data frame is modelled as the list of its rows, in frame order. Count columns are
  int64 columns: a cell is an integer, and the sum of a column wraps around in 64-bit
  two's complement, as the pandas sum does. The two derived rates are real numbers
  (the float64 arithmetic of the source is taken exact). Key columns are strings,
  compared as Python compares \<open>str\<close>: lexicographically by code point.
\<close>

subsection \<open>Rows\<close>

text \<open>The columns of the cleaned CSV that the program reads (after \<open>fillna(0)\<close>).\<close>

record raw_row =
  Country_Region :: string
  WHO_Region :: string
  Confirmed :: int
  Deaths :: int
  Recovered :: int
  Active :: int
  New_cases :: int
  New_deaths :: int
  New_recovered :: int

text \<open>The same columns with the two derived ones; also the schema of \<open>grouped_data\<close>.\<close>

record row = raw_row +
  CFR :: real
  RecoveryRate :: real

type_synonym frame = "row list"

datatype error = ValueError | LinAlgError

subsection \<open>Derived columns (lines 13-14)\<close>

text \<open>
  \<open>np.where(cond, a, b)\<close> computes both arrays and picks elementwise; the division by
  a zero \<open>Confirmed\<close> yields inf/NaN in the array that is not picked and raises nothing.
\<close>

definition np_where :: "bool \<Rightarrow> 'a \<Rightarrow> 'a \<Rightarrow> 'a" where
  "np_where c a b = (if c then a else b)"

definition add_rates :: "raw_row \<Rightarrow> row" where
  "add_rates r =
     \<lparr>Country_Region = Country_Region r, WHO_Region = WHO_Region r,
      Confirmed = Confirmed r, Deaths = Deaths r, Recovered = Recovered r,
      Active = Active r, New_cases = New_cases r, New_deaths = New_deaths r,
      New_recovered = New_recovered r,
      CFR = np_where (Confirmed r > 0)
              ((real_of_int (Deaths r) / real_of_int (Confirmed r)) * 100) 0,
      RecoveryRate = np_where (Confirmed r > 0)
              ((real_of_int (Recovered r) / real_of_int (Confirmed r)) * 100) 0\<rparr>"

subsection \<open>Aggregation (lines 16-26)\<close>

text \<open>
  \<open>Series.unique()\<close>: the distinct values in order of first appearance.
  \<open>nunique()\<close> counts them.
\<close>

definition unique :: "'a list \<Rightarrow> 'a list" where
  "unique xs = rev (remdups (rev xs))"

definition nunique :: "'a list \<Rightarrow> nat" where
  "nunique xs = length (unique xs)"

definition mean :: "real list \<Rightarrow> real" where
  "mean xs = sum_list xs / real (length xs)"

definition group_key :: "'a raw_row_scheme \<Rightarrow> string \<times> string" where
  "group_key r = (Country_Region r, WHO_Region r)"

text \<open>The rows of one group, in frame order.\<close>

definition get_group :: "string \<times> string \<Rightarrow> frame \<Rightarrow> frame" where
  "get_group k df = filter (\<lambda>r. group_key r = k) df"

text \<open>
  An int64 value: the integer is reduced to the range from \<open>-2^63\<close> up to, not
  including, \<open>2^63\<close>.
\<close>

definition wrap64 :: "int \<Rightarrow> int" where
  "wrap64 x = (x + 2 ^ 63) mod 2 ^ 64 - 2 ^ 63"

definition int64_range :: "int \<Rightarrow> bool" where
  "int64_range x \<longleftrightarrow> - (2 ^ 63) \<le> x \<and> x < 2 ^ 63"

text \<open>
  \<open>'sum'\<close> on an int64 column: the accumulator is an int64 too, and every addition
  wraps silently.
\<close>

definition int64_sum :: "int list \<Rightarrow> int" where
  "int64_sum xs = fold (\<lambda>x acc. wrap64 (acc + x)) xs 0"

text \<open>The \<open>agg\<close> dictionary: seven sums and two means over the rows of one group.\<close>

definition agg :: "string \<times> string \<Rightarrow> frame \<Rightarrow> row" where
  "agg k g =
     \<lparr>Country_Region = fst k, WHO_Region = snd k,
      Confirmed = int64_sum (map Confirmed g),
      Deaths = int64_sum (map Deaths g),
      Recovered = int64_sum (map Recovered g),
      Active = int64_sum (map Active g),
      New_cases = int64_sum (map New_cases g),
      New_deaths = int64_sum (map New_deaths g),
      New_recovered = int64_sum (map New_recovered g),
      CFR = mean (map CFR g),
      RecoveryRate = mean (map RecoveryRate g)\<rparr>"

text \<open>
  \<open>groupby([...]).agg({...}).reset_index()\<close>: one row per distinct key pair, the keys in
  ascending order (\<open>sort=True\<close> is the default of \<open>groupby\<close>).
\<close>

definition groupby_agg :: "frame \<Rightarrow> frame" where
  "groupby_agg df = map (\<lambda>k. agg k (get_group k df)) (sort (unique (map group_key df)))"

text \<open>Lines 13-26 together: from the cleaned table to \<open>grouped_data\<close>.\<close>

definition make_grouped_data :: "raw_row list \<Rightarrow> frame" where
  "make_grouped_data raw = groupby_agg (map add_rates raw)"

subsection \<open>Figures\<close>

text \<open>
  A plotly express call is modelled by the data it is given: the frame (or arrays) it
  plots, the columns on its axes, the colour column (scatter and bar), the facet
  column (scatter) and its title. The calls themselves are library code;
  they are taken to build a figure from any frame with these columns, the empty one
  included.
\<close>

datatype figure =
    px_line frame string "string list" string
  | px_scatter frame string string "string option" "string option" string
  | px_bar frame string string string string
  | px_box frame string string string
  | px_area "real list" "real list" string

text \<open>The rows a figure draws, for the figures built from a frame.\<close>

fun plotted :: "figure \<Rightarrow> frame" where
  "plotted (px_line df x ys t) = df"
| "plotted (px_scatter df x y color facet_col t) = df"
| "plotted (px_bar df x y color t) = df"
| "plotted (px_box df x y t) = df"
| "plotted (px_area xs ys t) = []"

subsection \<open>Chart builders (lines 32-74)\<close>

text \<open>
  \<open>DataFrame.nlargest(n, column)\<close> with the default \<open>keep='first'\<close>: the first \<open>n\<close> rows
  in descending order of the column, ties in frame order. \<open>sort_key\<close> is a stable
  insertion sort, so sorting by the negated column gives that order.
\<close>

definition nlargest :: "nat \<Rightarrow> (row \<Rightarrow> 'k::{linorder,uminus}) \<Rightarrow> frame \<Rightarrow> frame" where
  "nlargest n column df = take n (sort_key (\<lambda>r. - column r) df)"

definition create_line_chart :: "frame \<Rightarrow> figure" where
  "create_line_chart data =
     (let top_data = (if nunique (map Country_Region data) = 1 then data
                      else nlargest 5 Deaths data)
      in px_line top_data ''Country/Region'' [''Deaths'', ''Confirmed'']
           ''Top 5 Countries: Deaths and Confirmed Cases'')"

definition create_scatter_plot :: "frame \<Rightarrow> figure" where
  "create_scatter_plot data =
     px_scatter data ''Confirmed'' ''Deaths'' (Some ''WHO Region'') None
       ''Confirmed vs Deaths with WHO Region Colors''"

definition create_bar_chart :: "frame \<Rightarrow> figure" where
  "create_bar_chart data =
     (let top_data = (if nunique (map Country_Region data) = 1 then data
                      else nlargest 10 RecoveryRate data)
      in px_bar top_data ''RecoveryRate'' ''Country/Region'' ''RecoveryRate''
           ''Top 10 Countries by Recovery Rate'')"

definition create_box_plot :: "frame \<Rightarrow> figure" where
  "create_box_plot data =
     px_box data ''WHO Region'' ''Deaths'' ''Deaths Distribution by WHO Region''"

definition create_faceted_plot :: "frame \<Rightarrow> figure" where
  "create_faceted_plot data =
     px_scatter data ''New cases'' ''New deaths'' None (Some ''WHO Region'')
       ''New Cases vs New Deaths by WHO Region''"

text \<open>\<open>Series.dropna()\<close>; a missing cell is \<open>None\<close>.\<close>

definition dropna :: "'a option list \<Rightarrow> 'a list" where
  "dropna cells = map the (filter (\<lambda>c. c \<noteq> None) cells)"

text \<open>
  The \<open>CFR\<close> column as cells. Every cell of \<open>grouped_data\<close> holds a number (the mean of
  a non-empty group of numbers), and filtering keeps cells as they are.
\<close>

definition CFR_column :: "frame \<Rightarrow> real option list" where
  "CFR_column data = map (\<lambda>r. Some (CFR r)) data"

text \<open>\<open>ndarray.min()\<close> and \<open>ndarray.max()\<close>: a ValueError on an empty array.\<close>

fun np_min :: "real list \<Rightarrow> error + real" where
  "np_min [] = Inl ValueError"
| "np_min (v # vs) = Inr (fold min vs v)"

fun np_max :: "real list \<Rightarrow> error + real" where
  "np_max [] = Inl ValueError"
| "np_max (v # vs) = Inr (fold max vs v)"

text \<open>
  \<open>np.linspace(start, stop, num)\<close> with the default \<open>endpoint=True\<close>: \<open>num\<close> evenly
  spaced samples, the last one set to \<open>stop\<close> itself.
\<close>

definition linspace :: "real \<Rightarrow> real \<Rightarrow> nat \<Rightarrow> real list" where
  "linspace start stop num =
     (let step = (stop - start) / real (num - 1);
          y = map (\<lambda>i. real i * step + start) [0..<num]
      in if num > 1 then y[num - 1 := stop] else y)"

text \<open>
  \<open>scipy.stats.gaussian_kde\<close> is library code. Its model here, for a one-dimensional
  sample and exact arithmetic, follows the library's constructor and \<open>evaluate\<close>: fewer
  than two values are refused (ValueError); the sample variance (\<open>np.cov\<close>, divisor
  \<open>n - 1\<close>) is factorised by Cholesky, which raises LinAlgError unless it is positive;
  the bandwidth is Scott's factor \<open>n ** (-1/5)\<close>; the estimate is the mean of the
  Gaussian kernels centred at the sample values.

  The library computes in float64. The model agrees with it on the variance test
  where the mean and the squared deviations are computed without rounding, as for a
  sample of zeros; where rounding turns a zero variance into a positive one or a
  positive one into zero, the library's outcome can differ from the model's. The
  variance test of the model is evaluated below on a sample of zeros only.
\<close>

definition variance :: "real list \<Rightarrow> real" where
  "variance vs = (\<Sum>v\<leftarrow>vs. (v - mean vs)\<^sup>2) / (real (length vs) - 1)"

definition gaussian_kde :: "real list \<Rightarrow> error + (real \<Rightarrow> real)" where
  "gaussian_kde dataset =
     (if length dataset \<le> 1 then Inl ValueError
      else if variance dataset \<le> 0 then Inl LinAlgError
      else
        (let n = real (length dataset);
             factor = n powr (- 1 / 5);
             covariance = variance dataset * factor\<^sup>2
         in Inr (\<lambda>x. (\<Sum>v\<leftarrow>dataset. exp (- ((x - v)\<^sup>2) / (2 * covariance)))
                      / (n * sqrt (2 * pi * covariance)))))"

definition density_title :: string where
  "density_title = ''Distribution of Case Fatality Rates (Density Plot)''"

definition insufficient_title :: string where
  "insufficient_title = ''Distribution of Case Fatality Rates (Insufficient Data)''"

text \<open>The placeholder: \<open>px.area(title=...)\<close>, a figure without data.\<close>

definition insufficient_data :: figure where
  "insufficient_data = px_area [] [] insufficient_title"

definition create_density_plot :: "frame \<Rightarrow> error + figure" where
  "create_density_plot data =
     (let cfr_vals = dropna (CFR_column data)
      in if length cfr_vals > 1 then
           (case gaussian_kde cfr_vals of
              Inl e \<Rightarrow> Inl e
            | Inr kde \<Rightarrow>
                (case np_min cfr_vals of
                   Inl e \<Rightarrow> Inl e
                 | Inr lo \<Rightarrow>
                     (case np_max cfr_vals of
                        Inl e \<Rightarrow> Inl e
                      | Inr hi \<Rightarrow>
                          (let x_range = linspace lo hi 200;
                               y_density = map kde x_range
                           in Inr (px_area x_range y_density density_title)))))
         else Inr insufficient_data)"

subsection \<open>Controls (lines 29 and 79-122)\<close>

text \<open>\<open>str\<close> of a Python int, for the f-string of the last slider mark.\<close>

definition digit_char :: "nat \<Rightarrow> char" where
  "digit_char d = ''0123456789'' ! d"

fun str_nat :: "nat \<Rightarrow> string" where
  "str_nat n =
     (if n < 10 then [digit_char n]
      else str_nat (n div 10) @ [digit_char (n mod 10)])"

declare str_nat.simps [simp del]

definition py_str :: "int \<Rightarrow> string" where
  "py_str i = (if i < 0 then CHR ''-'' # str_nat (nat (- i)) else str_nat (nat i))"

text \<open>
  \<open>Series.max()\<close> is NaN (\<open>None\<close>) on an empty column, and \<open>int(NaN)\<close> raises
  ValueError.
\<close>

fun series_max :: "int list \<Rightarrow> int option" where
  "series_max [] = None"
| "series_max (v # vs) = Some (fold max vs v)"

definition py_int :: "int option \<Rightarrow> error + int" where
  "py_int x = (case x of None \<Rightarrow> Inl ValueError | Some v \<Rightarrow> Inr v)"

text \<open>
  An option of the dropdown is a (label, value) pair. \<open>multi\<close> is not passed by the
  source; the record holds the library's default.
\<close>

record dropdown =
  dropdown_id :: string
  options :: "(string \<times> string) list"
  dropdown_value :: string
  clearable :: bool
  multi :: bool

record range_slider =
  slider_id :: string
  slider_min :: int
  slider_max :: int
  step :: int
  slider_value :: "int list"
  marks :: "int \<rightharpoonup> string"

record layout =
  country_dropdown :: dropdown
  death_range_slider :: range_slider
  graphs :: "string list"

definition country_options :: "frame \<Rightarrow> (string \<times> string) list" where
  "country_options grouped =
     map (\<lambda>c. (c, c)) (sort (unique (map Country_Region grouped)))"

text \<open>The marks are a dict literal: of two entries with one key the later stays.\<close>

definition app_layout :: "frame \<Rightarrow> error + layout" where
  "app_layout grouped =
     (case py_int (series_max (map Deaths grouped)) of
        Inl e \<Rightarrow> Inl e
      | Inr deaths_max \<Rightarrow>
          Inr \<lparr>country_dropdown =
                 \<lparr>dropdown_id = ''country-dropdown'',
                  options = (''All'', ''all'') # country_options grouped,
                  dropdown_value = ''all'',
                  clearable = False,
                  multi = False\<rparr>,
               death_range_slider =
                 \<lparr>slider_id = ''death-range-slider'',
                  slider_min = 0,
                  slider_max = deaths_max,
                  step = 1000,
                  slider_value = [0, deaths_max],
                  marks = [0 \<mapsto> ''0'', 10000 \<mapsto> ''10K'', 50000 \<mapsto> ''50K'',
                           100000 \<mapsto> ''100K+'',
                           deaths_max \<mapsto> py_str deaths_max @ ''+'']\<rparr>,
               graphs = [''line-chart'', ''scatter-plot'', ''bar-chart'', ''box-plot'',
                         ''faceted-plot'', ''density-plot'']\<rparr>)"

subsection \<open>The callback (lines 135-153)\<close>

text \<open>
  Data frames are objects, and \<open>grouped_data\<close> is a module-level name bound to one. The
  object store is a list of frames, an address is an index into it, and the state of
  the process is the store with the binding of \<open>grouped_data\<close>. Indexing a frame with a
  boolean mask builds a new frame object and leaves the indexed one as it is.
\<close>

record world =
  heap :: "frame list"
  grouped_data :: nat

definition frame_at :: "world \<Rightarrow> nat \<Rightarrow> frame" where
  "frame_at w a = heap w ! a"

definition new_frame :: "world \<Rightarrow> frame \<Rightarrow> nat \<times> world" where
  "new_frame w df = (length (heap w), w\<lparr>heap := heap w @ [df]\<rparr>)"

definition boolean_index :: "world \<Rightarrow> nat \<Rightarrow> (row \<Rightarrow> bool) \<Rightarrow> nat \<times> world" where
  "boolean_index w a keep = new_frame w (filter keep (frame_at w a))"

text \<open>\<open>min_deaths, max_deaths = death_range\<close>: ValueError unless there are two values.\<close>

fun unpack2 :: "'a list \<Rightarrow> error + 'a \<times> 'a" where
  "unpack2 [a, b] = Inr (a, b)"
| "unpack2 _ = Inl ValueError"

text \<open>Lines 138-144: the local name \<open>filtered\<close> ends bound to the returned address.\<close>

definition filter_engine :: "world \<Rightarrow> string \<Rightarrow> int \<Rightarrow> int \<Rightarrow> nat \<times> world" where
  "filter_engine w selected_country min_deaths max_deaths =
     (let (filtered, w1) =
            boolean_index w (grouped_data w)
              (\<lambda>r. Deaths r \<ge> min_deaths \<and> Deaths r \<le> max_deaths)
      in if selected_country \<noteq> ''all''
         then boolean_index w1 filtered (\<lambda>r. Country_Region r = selected_country)
         else (filtered, w1))"

text \<open>The frame that \<open>filtered\<close> is bound to after line 144.\<close>

definition filtered_view :: "world \<Rightarrow> string \<Rightarrow> int \<Rightarrow> int \<Rightarrow> frame" where
  "filtered_view w selected_country min_deaths max_deaths =
     (let (filtered, w') = filter_engine w selected_country min_deaths max_deaths
      in frame_at w' filtered)"

type_synonym figures = "figure \<times> figure \<times> figure \<times> figure \<times> figure \<times> figure"

text \<open>
  The builders read the frame they are given and build new objects only; of the six,
  the density builder alone has a call that may raise.
\<close>

definition update_charts :: "world \<Rightarrow> string \<Rightarrow> int list \<Rightarrow> (error + figures) \<times> world" where
  "update_charts w selected_country death_range =
     (case unpack2 death_range of
        Inl e \<Rightarrow> (Inl e, w)
      | Inr (min_deaths, max_deaths) \<Rightarrow>
          (let (filtered, w') = filter_engine w selected_country min_deaths max_deaths;
               data = frame_at w' filtered;
               line_fig = create_line_chart data;
               scatter_fig = create_scatter_plot data;
               bar_fig = create_bar_chart data;
               box_fig = create_box_plot data;
               faceted_fig = create_faceted_plot data
           in case create_density_plot data of
                Inl e \<Rightarrow> (Inl e, w')
              | Inr density_fig \<Rightarrow>
                  (Inr (line_fig, scatter_fig, bar_fig, box_fig, faceted_fig, density_fig),
                   w')))"


subsection \<open>Sample tables\<close>

text \<open>Rows for the concrete instances below: the columns that matter, the rest zero.\<close>

definition sample_raw :: "string \<Rightarrow> string \<Rightarrow> int \<Rightarrow> int \<Rightarrow> int \<Rightarrow> raw_row" where
  "sample_raw c w conf d rec =
     \<lparr>Country_Region = c, WHO_Region = w, Confirmed = conf, Deaths = d, Recovered = rec,
      Active = conf - d - rec, New_cases = 0, New_deaths = 0, New_recovered = 0\<rparr>"

definition sample_row :: "string \<Rightarrow> string \<Rightarrow> int \<Rightarrow> real \<Rightarrow> real \<Rightarrow> row" where
  "sample_row c w d cfr rr =
     \<lparr>Country_Region = c, WHO_Region = w, Confirmed = 0, Deaths = d, Recovered = 0,
      Active = 0, New_cases = 0, New_deaths = 0, New_recovered = 0,
      CFR = cfr, RecoveryRate = rr\<rparr>"

text \<open>A process state: one frame object, bound to \<open>grouped_data\<close>.\<close>

definition sample_world :: world where
  "sample_world =
     \<lparr>heap = [[sample_row ''A'' ''Europe'' 5 1 50, sample_row ''B'' ''Africa'' 20 2 60,
               sample_row ''C'' ''Europe'' 300 3 70]],
      grouped_data = 0\<rparr>"

text \<open>A frame of six countries.\<close>

definition six_rows :: frame where
  "six_rows =
     [sample_row ''A'' ''Europe'' 5 1 50, sample_row ''B'' ''Africa'' 20 2 60,
      sample_row ''C'' ''Europe'' 300 3 70, sample_row ''D'' ''Americas'' 20 4 10,
      sample_row ''E'' ''Africa'' 1 5 90, sample_row ''F'' ''Europe'' 7 6 30]"

text \<open>A cleaned raw table: two records of one country, one of another.\<close>

definition sample_raws :: "raw_row list" where
  "sample_raws =
     [sample_raw ''B'' ''Europe'' 10 1 2, sample_raw ''A'' ''Africa'' 4 1 2,
      sample_raw ''B'' ''Europe'' 0 0 0]"

text \<open>
  A cleaned raw table with two records of one country whose counts add up to \<open>2^63\<close>.
\<close>

definition overflow_raws :: "raw_row list" where
  "overflow_raws =
     [sample_raw ''B'' ''Europe'' 4611686018427387904 4611686018427387904 0,
      sample_raw ''B'' ''Europe'' 4611686018427387904 4611686018427387904 0]"

text \<open>
  Two countries without deaths, hence with a fatality rate of 0 each, and a process
  state whose aggregated table holds them and a third country.
\<close>

definition zero_cfr_rows :: frame where
  "zero_cfr_rows = [sample_row ''A'' ''Europe'' 0 0 50, sample_row ''B'' ''Africa'' 0 0 60]"

definition zero_deaths_world :: world where
  "zero_deaths_world =
     \<lparr>heap = [[sample_row ''A'' ''Europe'' 0 0 50, sample_row ''B'' ''Africa'' 0 0 60,
               sample_row ''C'' ''Europe'' 300 3 70]],
      grouped_data = 0\<rparr>"

text \<open>An aggregated table; one country appears under two regions.\<close>

definition sample_grouped :: frame where
  "sample_grouped =
     [sample_row ''Peru'' ''Americas'' 18418 4 70, sample_row ''Chad'' ''Africa'' 75 8 87,
      sample_row ''Peru'' ''Europe'' 2 1 50, sample_row ''Fiji'' ''Western Pacific'' 0 0 66]"

section \<open>Properties\<close>

subsection \<open>Derived rates\<close>

text \<open>
  C4 (as the code has it). The guard of both derived columns is \<open>Confirmed > 0\<close>: the
  rates are 0 for every row with \<open>Confirmed \<le> 0\<close>, zero included, and the ratio times
  100 for every row with a positive \<open>Confirmed\<close>.
\<close>

theorem derived_rates_guard:
  "(Confirmed r \<le> 0 \<longrightarrow> CFR (add_rates r) = 0 \<and> RecoveryRate (add_rates r) = 0) \<and>
   (Confirmed r > 0 \<longrightarrow>
      CFR (add_rates r) = real_of_int (Deaths r) / real_of_int (Confirmed r) * 100 \<and>
      RecoveryRate (add_rates r) =
        real_of_int (Recovered r) / real_of_int (Confirmed r) * 100)"
  by (simp add: add_rates_def np_where_def)

text \<open>Instances: a row without confirmed cases and a row with 8 of them.\<close>

theorem derived_rates_guard_witness:
  "Confirmed (sample_raw ''A'' ''Europe'' 0 0 0) \<le> 0 \<and>
   CFR (add_rates (sample_raw ''A'' ''Europe'' 0 0 0)) = 0 \<and>
   RecoveryRate (add_rates (sample_raw ''A'' ''Europe'' 0 0 0)) = 0 \<and>
   Confirmed (sample_raw ''B'' ''Europe'' 8 2 4) > 0 \<and>
   CFR (add_rates (sample_raw ''B'' ''Europe'' 8 2 4)) = 25 \<and>
   RecoveryRate (add_rates (sample_raw ''B'' ''Europe'' 8 2 4)) = 50"
  using derived_rates_guard [of "sample_raw ''A'' ''Europe'' 0 0 0"]
        derived_rates_guard [of "sample_raw ''B'' ''Europe'' 8 2 4"]
  by (simp add: sample_raw_def)

text \<open>
  A row with a negative \<open>Confirmed\<close> (the column is a signed integer): \<open>Confirmed\<close> is
  not 0, the ratio times 100 is -25, and the derived \<open>CFR\<close> is 0.
\<close>

theorem derived_rates_negative_confirmed:
  "Confirmed (sample_raw ''A'' ''Europe'' (- 4) 1 2) \<noteq> 0 \<and>
   real_of_int (Deaths (sample_raw ''A'' ''Europe'' (- 4) 1 2))
     / real_of_int (Confirmed (sample_raw ''A'' ''Europe'' (- 4) 1 2)) * 100 = - 25 \<and>
   CFR (add_rates (sample_raw ''A'' ''Europe'' (- 4) 1 2)) = 0"
  by (simp add: add_rates_def np_where_def sample_raw_def)

subsection \<open>Aggregation\<close>

lemma length_unique_le: "length (unique xs) \<le> length xs"
  unfolding unique_def by (metis length_rev length_remdups_leq)

text \<open>
  C7. The aggregated table has at most as many rows as the cleaned raw table: it has
  one row per distinct key pair.
\<close>

theorem grouped_rows_le_raw_rows: "length (make_grouped_data raw) \<le> length raw"
  using length_unique_le [of "map group_key (map add_rates raw)"]
  by (simp add: make_grouped_data_def groupby_agg_def)

lemma filter_eq_distinct: "distinct xs \<Longrightarrow> x \<in> set xs \<Longrightarrow> filter (\<lambda>k. k = x) xs = [x]"
  by (induction xs) (auto simp: filter_empty_conv)

lemma group_key_add_rates: "group_key (add_rates r) = group_key r"
  by (simp add: group_key_def add_rates_def)

lemma group_key_agg: "group_key (agg k g) = k"
  by (simp add: group_key_def agg_def)

lemma get_group_add_rates:
  "get_group k (map add_rates raw) = map add_rates (filter (\<lambda>r. group_key r = k) raw)"
  by (simp add: get_group_def filter_map comp_def group_key_add_rates)

lemma group_of_key:
  assumes "k \<in> group_key ` set raw"
  shows "filter (\<lambda>g. group_key g = k) (make_grouped_data raw) =
           [agg k (map add_rates (filter (\<lambda>r. group_key r = k) raw))]"
proof -
  let ?keys = "sort (unique (map group_key (map add_rates raw)))"
  have d: "distinct ?keys" by (simp add: unique_def)
  have "set ?keys = group_key ` set raw"
    by (auto simp: unique_def group_key_add_rates image_iff)
  with assms have m: "k \<in> set ?keys" by simp
  have "filter (\<lambda>g. group_key g = k) (make_grouped_data raw) =
          map (\<lambda>k. agg k (get_group k (map add_rates raw))) (filter (\<lambda>k'. k' = k) ?keys)"
    by (simp add: make_grouped_data_def groupby_agg_def filter_map comp_def group_key_agg)
  also have "\<dots> = [agg k (get_group k (map add_rates raw))]"
    by (simp only: filter_eq_distinct [OF d m] list.map)
  finally show ?thesis by (simp add: get_group_add_rates)
qed

lemma add_rates_columns:
  "Confirmed (add_rates r) = Confirmed r"
  "Deaths (add_rates r) = Deaths r"
  "Recovered (add_rates r) = Recovered r"
  "Active (add_rates r) = Active r"
  "New_cases (add_rates r) = New_cases r"
  "New_deaths (add_rates r) = New_deaths r"
  "New_recovered (add_rates r) = New_recovered r"
  by (simp_all add: add_rates_def)

text \<open>
  The wrapping sum is the exact sum reduced to the int64 range, and the exact sum
  itself when that is in the range.
\<close>

lemma wrap64_id: "int64_range x \<Longrightarrow> wrap64 x = x"
  by (simp add: wrap64_def int64_range_def)

lemma wrap64_add_left: "wrap64 (wrap64 a + b) = wrap64 (a + b)"
proof -
  have "wrap64 a + b + 2 ^ 63 = (a + 2 ^ 63) mod 2 ^ 64 + b"
    by (simp add: wrap64_def)
  then have "(wrap64 a + b + 2 ^ 63) mod 2 ^ 64 = ((a + 2 ^ 63) mod 2 ^ 64 + b) mod 2 ^ 64"
    by (rule arg_cong)
  also have "\<dots> = (a + 2 ^ 63 + b) mod 2 ^ 64"
    by (rule mod_add_left_eq)
  also have "a + 2 ^ 63 + b = a + b + 2 ^ 63"
    by (simp only: add.assoc add.commute [of b])
  finally show ?thesis
    unfolding wrap64_def [of "wrap64 a + b"] wrap64_def [of "a + b"] by (rule arg_cong)
qed

lemma fold_wrap64: "fold (\<lambda>x acc. wrap64 (acc + x)) xs (wrap64 a) = wrap64 (a + sum_list xs)"
proof (induction xs arbitrary: a)
  case Nil
  then show ?case by simp
next
  case (Cons x xs)
  have "fold (\<lambda>x acc. wrap64 (acc + x)) (x # xs) (wrap64 a) =
          fold (\<lambda>x acc. wrap64 (acc + x)) xs (wrap64 (wrap64 a + x))" by simp
  also have "\<dots> = wrap64 (wrap64 a + x + sum_list xs)" by (rule Cons.IH)
  also have "\<dots> = wrap64 (a + (x + sum_list xs))"
    using wrap64_add_left [of a "x + sum_list xs"] by (simp add: add.assoc)
  finally show ?case by simp
qed

lemma int64_sum_wrap: "int64_sum xs = wrap64 (sum_list xs)"
  using fold_wrap64 [of xs 0] by (simp add: int64_sum_def wrap64_def)

text \<open>
  C5 (as the code has it). For every key pair (country, region) that occurs in the
  cleaned raw table, the aggregated table has exactly one row with that pair. Each of
  its seven count columns is the sum of the column over the raw rows with the pair,
  reduced to the int64 range: the sum itself whenever the sum is in that range. Its
  \<open>CFR\<close> and \<open>RecoveryRate\<close> are the means of the derived rates of those rows.
\<close>

theorem aggregated_int64_sums_and_means:
  assumes "rows = filter (\<lambda>r. group_key r = (c, w)) raw" and "rows \<noteq> []"
  shows "\<exists>g. filter (\<lambda>g. group_key g = (c, w)) (make_grouped_data raw) = [g] \<and>
             Country_Region g = c \<and> WHO_Region g = w \<and>
             Confirmed g = wrap64 (sum_list (map Confirmed rows)) \<and>
             Deaths g = wrap64 (sum_list (map Deaths rows)) \<and>
             Recovered g = wrap64 (sum_list (map Recovered rows)) \<and>
             Active g = wrap64 (sum_list (map Active rows)) \<and>
             New_cases g = wrap64 (sum_list (map New_cases rows)) \<and>
             New_deaths g = wrap64 (sum_list (map New_deaths rows)) \<and>
             New_recovered g = wrap64 (sum_list (map New_recovered rows)) \<and>
             (int64_range (sum_list (map Confirmed rows)) \<longrightarrow>
                Confirmed g = sum_list (map Confirmed rows)) \<and>
             (int64_range (sum_list (map Deaths rows)) \<longrightarrow>
                Deaths g = sum_list (map Deaths rows)) \<and>
             (int64_range (sum_list (map Recovered rows)) \<longrightarrow>
                Recovered g = sum_list (map Recovered rows)) \<and>
             (int64_range (sum_list (map Active rows)) \<longrightarrow>
                Active g = sum_list (map Active rows)) \<and>
             (int64_range (sum_list (map New_cases rows)) \<longrightarrow>
                New_cases g = sum_list (map New_cases rows)) \<and>
             (int64_range (sum_list (map New_deaths rows)) \<longrightarrow>
                New_deaths g = sum_list (map New_deaths rows)) \<and>
             (int64_range (sum_list (map New_recovered rows)) \<longrightarrow>
                New_recovered g = sum_list (map New_recovered rows)) \<and>
             CFR g = sum_list (map (\<lambda>r. CFR (add_rates r)) rows) / real (length rows) \<and>
             RecoveryRate g =
               sum_list (map (\<lambda>r. RecoveryRate (add_rates r)) rows) / real (length rows)"
proof -
  from assms obtain r where "r \<in> set raw" and "group_key r = (c, w)"
    by (metis (mono_tags, lifting) filter_False)
  then have "(c, w) \<in> group_key ` set raw" by force
  from group_of_key [OF this] assms(1)
  have g: "filter (\<lambda>g. group_key g = (c, w)) (make_grouped_data raw) =
             [agg (c, w) (map add_rates rows)]"
    by simp
  show ?thesis
    unfolding g
    by (rule exI [of _ "agg (c, w) (map add_rates rows)"])
       (simp add: agg_def add_rates_columns mean_def comp_def int64_sum_wrap wrap64_id)
qed

text \<open>Instance: the two records of country B, with sums in the int64 range.\<close>

theorem aggregated_int64_sums_and_means_witness:
  "filter (\<lambda>r. group_key r = (''B'', ''Europe'')) sample_raws =
     [sample_raw ''B'' ''Europe'' 10 1 2, sample_raw ''B'' ''Europe'' 0 0 0] \<and>
   int64_range 10 \<and> int64_range 1 \<and> int64_range 2 \<and> int64_range 7 \<and> int64_range 0 \<and>
   (\<exists>g. filter (\<lambda>g. group_key g = (''B'', ''Europe'')) (make_grouped_data sample_raws) = [g] \<and>
        Country_Region g = ''B'' \<and> WHO_Region g = ''Europe'' \<and>
        Confirmed g = 10 \<and> Deaths g = 1 \<and> Recovered g = 2 \<and> Active g = 7 \<and>
        New_cases g = 0 \<and> New_deaths g = 0 \<and> New_recovered g = 0 \<and>
        CFR g = 5 \<and> RecoveryRate g = 10)"
  using aggregated_int64_sums_and_means
    [of "[sample_raw ''B'' ''Europe'' 10 1 2, sample_raw ''B'' ''Europe'' 0 0 0]"
        "''B''" "''Europe''" sample_raws]
  by (simp add: sample_raws_def sample_raw_def group_key_def add_rates_def np_where_def
        wrap64_def int64_range_def) blast

text \<open>
  Two records of one country with \<open>2^62\<close> deaths each: the sum of the column over the
  two rows is \<open>2^63\<close>, and the aggregated row holds \<open>-2^63\<close>.
\<close>

theorem aggregated_sum_wraps:
  "map group_key overflow_raws = [(''B'', ''Europe''), (''B'', ''Europe'')] \<and>
   sum_list (map Deaths overflow_raws) = 9223372036854775808 \<and>
   map Deaths (make_grouped_data overflow_raws) = [- 9223372036854775808]"
  by (simp add: overflow_raws_def sample_raw_def group_key_def make_grouped_data_def
        groupby_agg_def get_group_def unique_def agg_def add_rates_def np_where_def
        int64_sum_def wrap64_def)

subsection \<open>Filtering\<close>

text \<open>
  What lines 138-144 compute, read off the store: the rows of \<open>grouped_data\<close> within
  the death range, narrowed to the selected country unless the selection is \<open>all\<close>;
  the binding of \<open>grouped_data\<close> stays, and the old store is a prefix of the new one.
\<close>

lemma filter_engine_result:
  assumes "grouped_data w < length (heap w)" and "filter_engine w sel lo hi = (a, w')"
  shows "frame_at w' a = filter (\<lambda>r. lo \<le> Deaths r \<and> Deaths r \<le> hi \<and> (sel \<noteq> ''all'' \<longrightarrow> Country_Region r = sel)) (frame_at w (grouped_data w))"
    and "grouped_data w' = grouped_data w"
    and "prefix (heap w) (heap w')"
  using assms
  by (auto simp: filter_engine_def boolean_index_def new_frame_def frame_at_def Let_def nth_append split: if_splits  intro!: filter_cong)

lemma filtered_view_eq:
  assumes "grouped_data w < length (heap w)"
  shows "filtered_view w sel lo hi = filter (\<lambda>r. lo \<le> Deaths r \<and> Deaths r \<le> hi \<and> (sel \<noteq> ''all'' \<longrightarrow> Country_Region r = sel)) (frame_at w (grouped_data w))"
proof -
  obtain a w' where fe: "filter_engine w sel lo hi = (a, w')"
    by (cases "filter_engine w sel lo hi")
  from filter_engine_result(1) [OF assms fe] fe show ?thesis
    by (simp add: filtered_view_def)
qed

text \<open>
  C2. The filtered frame is a sub-list of the rows of \<open>grouped_data\<close> (same rows, same
  order, none added), and each of its rows has \<open>Deaths\<close> within the inclusive range
  and the selected country, unless the selection is the sentinel \<open>all\<close>.
\<close>

theorem filter_engine_subset_in_range:
  assumes "grouped_data w < length (heap w)"
  shows "subseq (filtered_view w sel lo hi) (frame_at w (grouped_data w)) \<and>
         (\<forall>r \<in> set (filtered_view w sel lo hi).
            lo \<le> Deaths r \<and> Deaths r \<le> hi \<and> (Country_Region r = sel \<or> sel = ''all''))"
  by (auto simp: filtered_view_eq [OF assms])

text \<open>Instance: country B within [0, 100] selects the one row of B.\<close>

theorem filter_engine_subset_in_range_witness:
  "grouped_data sample_world < length (heap sample_world) \<and>
   filtered_view sample_world ''B'' 0 100 = [sample_row ''B'' ''Africa'' 20 2 60] \<and>
   subseq [sample_row ''B'' ''Africa'' 20 2 60]
     (frame_at sample_world (grouped_data sample_world)) \<and>
   Deaths (sample_row ''B'' ''Africa'' 20 2 60) = 20 \<and>
   Country_Region (sample_row ''B'' ''Africa'' 20 2 60) = ''B''"
  using filter_engine_subset_in_range [of sample_world "''B''" 0 100]
  by (simp add: sample_world_def filtered_view_def filter_engine_def boolean_index_def
        new_frame_def frame_at_def sample_row_def)

subsection \<open>The aggregated table is not written\<close>

lemma update_charts_world:
  assumes "grouped_data w < length (heap w)"
  shows "grouped_data (snd (update_charts w sel rng)) = grouped_data w \<and> prefix (heap w) (heap (snd (update_charts w sel rng)))"
proof (cases "unpack2 rng")
  case (Inl e) then show ?thesis by (simp add: update_charts_def)
next
  case (Inr p)
  obtain lo hi where p: "p = (lo, hi)" by (cases p)
  obtain a w' where fe: "filter_engine w sel lo hi = (a, w')"
    by (cases "filter_engine w sel lo hi")
  have "snd (update_charts w sel rng) = w'"
    using Inr p fe by (simp add: update_charts_def Let_def split: sum.splits)
  with filter_engine_result(2,3) [OF assms fe] show ?thesis by simp
qed

text \<open>
  C8. Running the callback, whatever the selection and the range (a malformed range
  included), leaves \<open>grouped_data\<close> bound to the same frame object and that object,
  like every object that existed before, with the same rows: filtering only adds new
  frame objects.
\<close>

theorem update_charts_frame:
  assumes "grouped_data w < length (heap w)"
  shows "grouped_data (snd (update_charts w sel rng)) = grouped_data w \<and>
         frame_at (snd (update_charts w sel rng)) (grouped_data w) = frame_at w (grouped_data w) \<and>
         (\<forall>a < length (heap w). frame_at (snd (update_charts w sel rng)) a = frame_at w a)"
  using update_charts_world [OF assms, of sel rng] assms
  by (auto simp: frame_at_def prefix_def nth_append)

text \<open>Instance: the callback on the sample state adds two frames to the one there.\<close>

theorem update_charts_frame_witness:
  "grouped_data sample_world < length (heap sample_world) \<and>
   grouped_data (snd (update_charts sample_world ''B'' [0, 100])) = grouped_data sample_world \<and>
   frame_at (snd (update_charts sample_world ''B'' [0, 100])) (grouped_data sample_world)
     = frame_at sample_world (grouped_data sample_world) \<and>
   length (heap (snd (update_charts sample_world ''B'' [0, 100]))) = 3"
  using update_charts_frame [of sample_world "''B''" "[0, 100]"]
  by (simp add: sample_world_def update_charts_def filter_engine_def boolean_index_def
        new_frame_def frame_at_def sample_row_def create_density_plot_def dropna_def CFR_column_def Let_def)

subsection \<open>Empty selections\<close>




subsection \<open>Line and bar charts\<close>

text \<open>
  \<open>nunique\<close> is the number of distinct values, and \<open>nlargest\<close> returns the first rows of
  the frame sorted in descending order of the column: as many as asked for or all,
  each a row of the frame, and none of the rows left out above one that is returned.
\<close>

lemma nunique_card: "nunique xs = card (set xs)"
  by (simp add: nunique_def unique_def length_remdups_card_conv)

lemma set_unique: "set (unique xs) = set xs"
  by (simp add: unique_def)

lemma distinct_unique: "distinct (unique xs)"
  by (simp add: unique_def)

lemma length_nlargest: "length (nlargest n column df) = min n (length df)"
  by (simp add: nlargest_def min.commute)

lemma mset_nlargest: "mset (nlargest n column df) \<subseteq># mset df"
proof -
  let ?ys = "sort_key (\<lambda>r. - column r) df"
  have "mset ?ys = mset (take n ?ys) + mset (drop n ?ys)"
    by (metis append_take_drop_id mset_append)
  then show ?thesis
    by (simp add: nlargest_def)
qed

lemma sorted_desc_sort_key:
  fixes column :: "row \<Rightarrow> 'k::linordered_idom"
  shows "sorted_wrt (\<lambda>a b. column a \<ge> column b) (sort_key (\<lambda>r. - column r) df)"
proof -
  have "sorted (map (\<lambda>r. - column r) (sort_key (\<lambda>r. - column r) df))"
    by (rule sorted_sort_key)
  then show ?thesis by (simp add: sorted_wrt_map)
qed

lemma sorted_nlargest:
  fixes column :: "row \<Rightarrow> 'k::linordered_idom"
  shows "sorted_wrt (\<lambda>a b. column a \<ge> column b) (nlargest n column df)"
  unfolding nlargest_def by (rule sorted_wrt_take [OF sorted_desc_sort_key])

lemma nlargest_dominates:
  fixes column :: "row \<Rightarrow> 'k::linordered_idom"
  assumes "p \<in> set (nlargest n column df)" and "r \<in># mset df - mset (nlargest n column df)"
  shows "column r \<le> column p"
proof -
  let ?ys = "sort_key (\<lambda>r. - column r) df"
  have split: "?ys = take n ?ys @ drop n ?ys" by simp
  have "mset df = mset (take n ?ys) + mset (drop n ?ys)"
    by (metis split mset_append mset_sort)
  then have rest: "mset df - mset (nlargest n column df) = mset (drop n ?ys)"
    by (simp add: nlargest_def)
  have "sorted_wrt (\<lambda>a b. column a \<ge> column b) (take n ?ys @ drop n ?ys)"
    using sorted_desc_sort_key [of column df] by simp
  then have "\<forall>a \<in> set (take n ?ys). \<forall>b \<in> set (drop n ?ys). column a \<ge> column b"
    unfolding sorted_wrt_append by blast
  with assms rest show ?thesis by (simp add: nlargest_def)
qed

lemma plotted_line: "plotted (create_line_chart data) = (if card (Country_Region ` set data) = 1 then data else nlargest 5 Deaths data)"
  by (simp add: create_line_chart_def nunique_card Let_def)

lemma plotted_bar: "plotted (create_bar_chart data) = (if card (Country_Region ` set data) = 1 then data else nlargest 10 RecoveryRate data)"
  by (simp add: create_bar_chart_def nunique_card Let_def)

text \<open>
  C3. With exactly one distinct country in the frame, the line chart and the bar chart
  plot the frame as it is. Otherwise the line chart plots at most 5 rows (5, or all
  when there are fewer), taken from the frame, in descending order of \<open>Deaths\<close>, and no
  row left out has more deaths than a plotted one; the bar chart does the same with at
  most 10 rows and \<open>RecoveryRate\<close>.
\<close>

theorem line_bar_rows:
  "(card (Country_Region ` set data) = 1 \<longrightarrow>
      plotted (create_line_chart data) = data \<and> plotted (create_bar_chart data) = data) \<and>
   (card (Country_Region ` set data) \<noteq> 1 \<longrightarrow>
      length (plotted (create_line_chart data)) \<le> 5 \<and>
      length (plotted (create_line_chart data)) = min 5 (length data) \<and>
      mset (plotted (create_line_chart data)) \<subseteq># mset data \<and>
      sorted_wrt (\<lambda>a b. Deaths a \<ge> Deaths b) (plotted (create_line_chart data)) \<and>
      (\<forall>p \<in> set (plotted (create_line_chart data)).
         \<forall>r \<in># mset data - mset (plotted (create_line_chart data)). Deaths r \<le> Deaths p) \<and>
      length (plotted (create_bar_chart data)) \<le> 10 \<and>
      length (plotted (create_bar_chart data)) = min 10 (length data) \<and>
      mset (plotted (create_bar_chart data)) \<subseteq># mset data \<and>
      sorted_wrt (\<lambda>a b. RecoveryRate a \<ge> RecoveryRate b) (plotted (create_bar_chart data)) \<and>
      (\<forall>p \<in> set (plotted (create_bar_chart data)).
         \<forall>r \<in># mset data - mset (plotted (create_bar_chart data)).
           RecoveryRate r \<le> RecoveryRate p))"
proof (cases "card (Country_Region ` set data) = 1")
  case True
  then show ?thesis by (simp add: plotted_line plotted_bar)
next
  case False
  have "\<forall>p \<in> set (nlargest 5 Deaths data). \<forall>r \<in># mset data - mset (nlargest 5 Deaths data). Deaths r \<le> Deaths p"
    using nlargest_dominates [of _ 5 Deaths data] by blast
  moreover have "\<forall>p \<in> set (nlargest 10 RecoveryRate data). \<forall>r \<in># mset data - mset (nlargest 10 RecoveryRate data). RecoveryRate r \<le> RecoveryRate p"
    using nlargest_dominates [of _ 10 RecoveryRate data] by blast
  ultimately show ?thesis using False
    by (simp add: plotted_line plotted_bar length_nlargest mset_nlargest sorted_nlargest)
qed

text \<open>
  Instances: six countries (the line chart keeps five, the tie of B and D in frame
  order; the bar chart orders all six), and a frame of one country.
\<close>

theorem line_bar_rows_witness:
  "card (Country_Region ` set six_rows) \<noteq> 1 \<and>
   plotted (create_line_chart six_rows) =
     [sample_row ''C'' ''Europe'' 300 3 70, sample_row ''B'' ''Africa'' 20 2 60,
      sample_row ''D'' ''Americas'' 20 4 10, sample_row ''F'' ''Europe'' 7 6 30,
      sample_row ''A'' ''Europe'' 5 1 50] \<and>
   length (plotted (create_line_chart six_rows)) \<le> 5 \<and>
   map Country_Region (plotted (create_bar_chart six_rows)) =
     [''E'', ''C'', ''B'', ''A'', ''F'', ''D''] \<and>
   card (Country_Region ` set [sample_row ''A'' ''Europe'' 5 1 50]) = 1 \<and>
   plotted (create_line_chart [sample_row ''A'' ''Europe'' 5 1 50]) =
     [sample_row ''A'' ''Europe'' 5 1 50] \<and>
   plotted (create_bar_chart [sample_row ''A'' ''Europe'' 5 1 50]) =
     [sample_row ''A'' ''Europe'' 5 1 50]"
  using line_bar_rows [of six_rows] line_bar_rows [of "[sample_row ''A'' ''Europe'' 5 1 50]"]
  by (simp add: six_rows_def sample_row_def create_line_chart_def create_bar_chart_def
        nunique_def unique_def nlargest_def)

subsection \<open>Density plot\<close>

text \<open>
  No cell of the \<open>CFR\<close> column is missing, the smallest and largest value of a
  non-empty array exist, and \<open>linspace a b n\<close> is \<open>n\<close> samples from \<open>a\<close> to \<open>b\<close> that
  stay between the two.
\<close>

lemma cfr_vals: "dropna (CFR_column data) = map CFR data"
  by (simp add: dropna_def CFR_column_def filter_map comp_def)

lemma np_min_Min: "vs \<noteq> [] \<Longrightarrow> np_min vs = Inr (Min (set vs))"
proof (cases vs)
  case (Cons v ws)
  then show ?thesis using Min.set_eq_fold [of v ws] by simp
qed simp

lemma np_max_Max: "vs \<noteq> [] \<Longrightarrow> np_max vs = Inr (Max (set vs))"
proof (cases vs)
  case (Cons v ws)
  then show ?thesis using Max.set_eq_fold [of v ws] by simp
qed simp

lemma length_linspace: "length (linspace a b n) = n"
  by (simp add: linspace_def Let_def)

lemma hd_linspace: "n > 1 \<Longrightarrow> hd (linspace a b n) = a"
  by (simp add: linspace_def Let_def hd_conv_nth)

lemma last_linspace: "n > 1 \<Longrightarrow> last (linspace a b n) = b"
  by (simp add: linspace_def Let_def last_list_update)

lemma linspace_bounds:
  assumes "n > 1" and "a \<le> b" and "x \<in> set (linspace a b n)"
  shows "a \<le> x \<and> x \<le> b"
proof -
  let ?step = "(b - a) / real (n - 1)"
  from assms(3) obtain i where i: "i < n" and x: "x = linspace a b n ! i"
    by (metis in_set_conv_nth length_linspace)
  show ?thesis
  proof (cases "i = n - 1")
    case True
    with assms(1,2) x show ?thesis by (simp add: linspace_def Let_def)
  next
    case False
    with i have lt: "i < n - 1" by simp
    from False i assms(1) x have xi: "x = real i * ?step + a"
      by (simp add: linspace_def Let_def)
    have s0: "0 \<le> ?step" using assms(2) by simp
    have "real i * ?step \<le> real (n - 1) * ?step"
      using lt s0 by (intro mult_right_mono) simp_all
    also have "\<dots> = b - a" using assms(1) by simp
    finally have "real i * ?step \<le> b - a" .
    moreover have "0 \<le> real i * ?step" using s0 by (intro mult_nonneg_nonneg) simp_all
    ultimately show ?thesis using xi by simp
  qed
qed

text \<open>
  The guard of the density builder counts the \<open>CFR\<close> values, not the distinct ones:
  the placeholder is returned exactly for frames of fewer than 2 rows.
\<close>

lemma titles_differ: "density_title \<noteq> insufficient_title"
  by (simp add: density_title_def insufficient_title_def)

lemma placeholder_iff: "create_density_plot data = Inr insufficient_data \<longleftrightarrow> length data < 2"
proof (cases "length data < 2")
  case True
  then show ?thesis by (simp add: create_density_plot_def cfr_vals)
next
  case False
  then have ne: "map CFR data \<noteq> []" by auto
  from False show ?thesis
    by (auto simp: create_density_plot_def cfr_vals np_min_Min [OF ne] np_max_Max [OF ne]
          insufficient_data_def titles_differ Let_def split: sum.splits)
qed

text \<open>
  Whenever the estimator accepts the sample, the builder returns its estimate over 200
  samples that start at the smallest \<open>CFR\<close>, end at the largest and stay between them.
\<close>

lemma density_curve_span:
  assumes "2 \<le> length data" and "gaussian_kde (map CFR data) = Inr kde"
  shows "\<exists>xs. create_density_plot data = Inr (px_area xs (map kde xs) density_title) \<and>
           length xs = 200 \<and> hd xs = Min (CFR ` set data) \<and> last xs = Max (CFR ` set data) \<and>
           (\<forall>x \<in> set xs. Min (CFR ` set data) \<le> x \<and> x \<le> Max (CFR ` set data))"
proof -
  let ?vs = "map CFR data"
  let ?lo = "Min (CFR ` set data)" and ?hi = "Max (CFR ` set data)"
  from assms(1) have len: "1 < length ?vs" by simp
  then have ne: "?vs \<noteq> []" by auto
  have res: "create_density_plot data =
      Inr (px_area (linspace ?lo ?hi 200) (map kde (linspace ?lo ?hi 200)) density_title)"
    using len assms(2) np_min_Min [OF ne] np_max_Max [OF ne]
    by (simp add: create_density_plot_def cfr_vals Let_def)
  have le: "?lo \<le> ?hi" using ne by (simp add: Min_le_iff)
  have "\<forall>x \<in> set (linspace ?lo ?hi 200). ?lo \<le> x \<and> x \<le> ?hi"
    using linspace_bounds [of 200 ?lo ?hi] le by simp
  with res show ?thesis
    by (intro exI [of _ "linspace ?lo ?hi 200"])
       (simp add: length_linspace hd_linspace last_linspace)
qed

text \<open>
  C1 (where the code misses it). Two countries without deaths have one distinct
  \<open>CFR\<close> value, 0, in two rows. The claim asks for the Insufficient Data placeholder;
  the guard, which counts the two values, lets the frame through, the estimator
  refuses a sample without variance, and the builder ends in LinAlgError. The callback
  reaches that frame with the selection \<open>all\<close> and the range [0, 0], and fails with it.
\<close>

theorem density_plot_equal_values:
  "length zero_cfr_rows = 2 \<and>
   nunique (map CFR zero_cfr_rows) = 1 \<and>
   create_density_plot zero_cfr_rows = Inl LinAlgError \<and>
   filtered_view zero_deaths_world ''all'' 0 0 = zero_cfr_rows \<and>
   fst (update_charts zero_deaths_world ''all'' [0, 0]) = Inl LinAlgError"
  by (simp add: zero_cfr_rows_def zero_deaths_world_def sample_row_def
        create_density_plot_def dropna_def CFR_column_def gaussian_kde_def variance_def
        mean_def nunique_def unique_def update_charts_def filtered_view_def
        filter_engine_def boolean_index_def new_frame_def frame_at_def)

subsection \<open>Controls\<close>

lemma series_max_Max: "vs \<noteq> [] \<Longrightarrow> series_max vs = Some (Max (set vs))"
proof (cases vs)
  case (Cons v ws)
  then show ?thesis using Max.set_eq_fold [of v ws] by simp
qed simp

lemma app_layout_nonempty:
  assumes "grouped \<noteq> []"
  shows "app_layout grouped =
     Inr \<lparr>country_dropdown =
                 \<lparr>dropdown_id = ''country-dropdown'',
                  options = (''All'', ''all'') # country_options grouped,
                  dropdown_value = ''all'',
                  clearable = False,
                  multi = False\<rparr>,
               death_range_slider =
                 \<lparr>slider_id = ''death-range-slider'',
                  slider_min = 0,
                  slider_max = Max (Deaths ` set grouped),
                  step = 1000,
                  slider_value = [0, Max (Deaths ` set grouped)],
                  marks = [0 \<mapsto> ''0'', 10000 \<mapsto> ''10K'', 50000 \<mapsto> ''50K'',
                           100000 \<mapsto> ''100K+'',
                           Max (Deaths ` set grouped) \<mapsto> py_str (Max (Deaths ` set grouped)) @ ''+'']\<rparr>,
               graphs = [''line-chart'', ''scatter-plot'', ''bar-chart'', ''box-plot'',
                         ''faceted-plot'', ''density-plot'']\<rparr>"
  using assms series_max_Max [of "map Deaths grouped"]
  by (simp add: app_layout_def py_int_def)

text \<open>
  C9. For a non-empty aggregated table the layout declares the dropdown, single-select,
  with the option labelled All (value \<open>all\<close>) first, then one option per distinct
  country, and \<open>all\<close> selected; and the range slider from 0 to the largest \<open>Deaths\<close>
  with step 1000, both handles at the ends, and marks at 0, 10000, 50000, 100000 and
  the maximum, labelled 0, 10K, 50K, 100K+ and the maximum followed by a plus sign
  (where the maximum is one of the four fixed positions, its label is the one kept).
\<close>

theorem controls_declared:
  assumes "grouped \<noteq> []" and "deaths_max = Max (Deaths ` set grouped)"
  shows "\<exists>ly. app_layout grouped = Inr ly \<and>
           \<not> multi (country_dropdown ly) \<and>
           hd (options (country_dropdown ly)) = (''All'', ''all'') \<and>
           set (tl (options (country_dropdown ly))) = (\<lambda>c. (c, c)) ` Country_Region ` set grouped \<and>
           dropdown_value (country_dropdown ly) = ''all'' \<and>
           slider_min (death_range_slider ly) = 0 \<and>
           slider_max (death_range_slider ly) = deaths_max \<and>
           step (death_range_slider ly) = 1000 \<and>
           slider_value (death_range_slider ly) = [0, deaths_max] \<and>
           dom (marks (death_range_slider ly)) = {0, 10000, 50000, 100000, deaths_max} \<and>
           marks (death_range_slider ly) deaths_max = Some (py_str deaths_max @ ''+'') \<and>
           (deaths_max \<noteq> 0 \<longrightarrow> marks (death_range_slider ly) 0 = Some ''0'') \<and>
           (deaths_max \<noteq> 10000 \<longrightarrow> marks (death_range_slider ly) 10000 = Some ''10K'') \<and>
           (deaths_max \<noteq> 50000 \<longrightarrow> marks (death_range_slider ly) 50000 = Some ''50K'') \<and>
           (deaths_max \<noteq> 100000 \<longrightarrow> marks (death_range_slider ly) 100000 = Some ''100K+'')"
  unfolding app_layout_nonempty [OF assms(1)] assms(2) [symmetric]
  by (auto simp: country_options_def set_unique)

lemma country_options_sample:
  "country_options sample_grouped = [(''Chad'', ''Chad''), (''Fiji'', ''Fiji''), (''Peru'', ''Peru'')]"
proof -
  have "unique (map Country_Region sample_grouped) = [''Peru'', ''Chad'', ''Fiji'']"
    by (simp add: sample_grouped_def sample_row_def unique_def)
  then show ?thesis by (simp add: country_options_def)
qed

text \<open>Instance: three countries, largest death count 18418.\<close>

theorem controls_declared_witness:
  "sample_grouped \<noteq> [] \<and> 18418 = Max (Deaths ` set sample_grouped) \<and>
   (\<exists>ly. app_layout sample_grouped = Inr ly \<and>
           \<not> multi (country_dropdown ly) \<and>
           hd (options (country_dropdown ly)) = (''All'', ''all'') \<and>
           set (tl (options (country_dropdown ly))) =
             {(''Peru'', ''Peru''), (''Chad'', ''Chad''), (''Fiji'', ''Fiji'')} \<and>
           dropdown_value (country_dropdown ly) = ''all'' \<and>
           slider_min (death_range_slider ly) = 0 \<and>
           slider_max (death_range_slider ly) = 18418 \<and>
           step (death_range_slider ly) = 1000 \<and>
           slider_value (death_range_slider ly) = [0, 18418] \<and>
           dom (marks (death_range_slider ly)) = {0, 10000, 50000, 100000, 18418} \<and>
           marks (death_range_slider ly) 18418 = Some ''18418+'' \<and>
           marks (death_range_slider ly) 0 = Some ''0'' \<and>
           marks (death_range_slider ly) 10000 = Some ''10K'' \<and>
           marks (death_range_slider ly) 50000 = Some ''50K'' \<and>
           marks (death_range_slider ly) 100000 = Some ''100K+'')"
proof -
  have h1: "sample_grouped \<noteq> []" by (simp add: sample_grouped_def)
  have h2: "18418 = Max (Deaths ` set sample_grouped)"
    by (simp add: sample_grouped_def sample_row_def)
  have s: "(\<lambda>c. (c, c)) ` Country_Region ` set sample_grouped =
             {(''Peru'', ''Peru''), (''Chad'', ''Chad''), (''Fiji'', ''Fiji'')}"
    by (auto simp: sample_grouped_def sample_row_def)
  have p: "py_str 18418 @ ''+'' = ''18418+''"
    by (simp add: py_str_def str_nat.simps digit_char_def)
  from controls_declared [OF h1 h2, unfolded s p] obtain ly where
    "app_layout sample_grouped = Inr ly \<and>
           \<not> multi (country_dropdown ly) \<and>
           hd (options (country_dropdown ly)) = (''All'', ''all'') \<and>
           set (tl (options (country_dropdown ly))) =
             {(''Peru'', ''Peru''), (''Chad'', ''Chad''), (''Fiji'', ''Fiji'')} \<and>
           dropdown_value (country_dropdown ly) = ''all'' \<and>
           slider_min (death_range_slider ly) = 0 \<and>
           slider_max (death_range_slider ly) = 18418 \<and>
           step (death_range_slider ly) = 1000 \<and>
           slider_value (death_range_slider ly) = [0, 18418] \<and>
           dom (marks (death_range_slider ly)) = {0, 10000, 50000, 100000, 18418} \<and>
           marks (death_range_slider ly) 18418 = Some ''18418+'' \<and>
           marks (death_range_slider ly) 0 = Some ''0'' \<and>
           marks (death_range_slider ly) 10000 = Some ''10K'' \<and>
           marks (death_range_slider ly) 50000 = Some ''50K'' \<and>
           marks (death_range_slider ly) 100000 = Some ''100K+''"
    by auto
  with h1 h2 show ?thesis by blast
qed

text \<open>
  C10. In every layout that is built, the options after the leading All entry have
  label and value equal, are in ascending lexicographic order, without duplicates, and
  are the countries of the aggregated table.
\<close>

theorem dropdown_options_sorted:
  assumes "app_layout grouped = Inr ly"
  shows "hd (options (country_dropdown ly)) = (''All'', ''all'') \<and>
         map fst (tl (options (country_dropdown ly))) = map snd (tl (options (country_dropdown ly))) \<and>
         sorted (map snd (tl (options (country_dropdown ly)))) \<and>
         distinct (map snd (tl (options (country_dropdown ly)))) \<and>
         set (map snd (tl (options (country_dropdown ly)))) = Country_Region ` set grouped"
proof -
  from assms have "options (country_dropdown ly) = (''All'', ''all'') # country_options grouped"
    by (auto simp: app_layout_def split: sum.splits)
  then show ?thesis
    by (simp add: country_options_def comp_def set_unique distinct_unique)
qed

text \<open>Instance: Peru, listed under two regions, appears once, after Chad and Fiji.\<close>

theorem dropdown_options_sorted_witness:
  "\<exists>ly. app_layout sample_grouped = Inr ly \<and>
        hd (options (country_dropdown ly)) = (''All'', ''all'') \<and>
        map fst (tl (options (country_dropdown ly))) = [''Chad'', ''Fiji'', ''Peru''] \<and>
        map snd (tl (options (country_dropdown ly))) = [''Chad'', ''Fiji'', ''Peru''] \<and>
        sorted [''Chad'', ''Fiji'', ''Peru''] \<and>
        distinct [''Chad'', ''Fiji'', ''Peru''] \<and>
        Country_Region ` set sample_grouped = {''Chad'', ''Fiji'', ''Peru''}"
proof -
  have "sample_grouped \<noteq> []" by (simp add: sample_grouped_def)
  from app_layout_nonempty [OF this] obtain ly
    where ly: "app_layout sample_grouped = Inr ly"
      and opts: "options (country_dropdown ly) = (''All'', ''all'') # country_options sample_grouped"
    by simp
  have c: "Country_Region ` set sample_grouped = {''Chad'', ''Fiji'', ''Peru''}"
    by (auto simp: sample_grouped_def sample_row_def)
  from dropdown_options_sorted [OF ly, unfolded opts country_options_sample c] ly
  show ?thesis
    by (intro exI [of _ ly]) (simp add: opts country_options_sample c)
qed

end
